theory Spec2Isabelle
  imports Complex_Main
begin

section \<open>Variational Bayes for LDA (lda/vb.py): the embedding\<close>

subsection \<open>numpy floats\<close>

text \<open>
  The arrays of \<^verbatim>\<open>vb.py\<close> hold float64 values. The model keeps the four kinds of value
  numpy computes with: a finite number, \<^verbatim>\<open>inf\<close>, \<^verbatim>\<open>-inf\<close> and \<^verbatim>\<open>nan\<close>. Finite
  arithmetic is exact (no rounding, no overflow, one unsigned zero); on the special
  values the operations follow IEEE 754 as numpy does, where a division by zero or a
  logarithm of zero gives a warning and a special value, never an exception.
\<close>

datatype npfloat = Fin real | PInf | NInf | NaN

fun np_neg :: "npfloat \<Rightarrow> npfloat" where
  "np_neg (Fin a) = Fin (- a)"
| "np_neg PInf = NInf"
| "np_neg NInf = PInf"
| "np_neg NaN = NaN"

fun np_add :: "npfloat \<Rightarrow> npfloat \<Rightarrow> npfloat" where
  "np_add (Fin a) (Fin b) = Fin (a + b)"
| "np_add (Fin a) PInf = PInf"
| "np_add (Fin a) NInf = NInf"
| "np_add (Fin a) NaN = NaN"
| "np_add PInf (Fin b) = PInf"
| "np_add PInf PInf = PInf"
| "np_add PInf NInf = NaN"
| "np_add PInf NaN = NaN"
| "np_add NInf (Fin b) = NInf"
| "np_add NInf PInf = NaN"
| "np_add NInf NInf = NInf"
| "np_add NInf NaN = NaN"
| "np_add NaN b = NaN"

definition np_sub :: "npfloat \<Rightarrow> npfloat \<Rightarrow> npfloat" where
  "np_sub a b = np_add a (np_neg b)"

fun np_mul :: "npfloat \<Rightarrow> npfloat \<Rightarrow> npfloat" where
  "np_mul (Fin a) (Fin b) = Fin (a * b)"
| "np_mul (Fin a) PInf = (if a = 0 then NaN else if 0 < a then PInf else NInf)"
| "np_mul (Fin a) NInf = (if a = 0 then NaN else if 0 < a then NInf else PInf)"
| "np_mul (Fin a) NaN = NaN"
| "np_mul PInf (Fin b) = (if b = 0 then NaN else if 0 < b then PInf else NInf)"
| "np_mul PInf PInf = PInf"
| "np_mul PInf NInf = NInf"
| "np_mul PInf NaN = NaN"
| "np_mul NInf (Fin b) = (if b = 0 then NaN else if 0 < b then NInf else PInf)"
| "np_mul NInf PInf = NInf"
| "np_mul NInf NInf = PInf"
| "np_mul NInf NaN = NaN"
| "np_mul NaN b = NaN"

fun np_div :: "npfloat \<Rightarrow> npfloat \<Rightarrow> npfloat" where
  "np_div (Fin a) (Fin b) =
     (if b \<noteq> 0 then Fin (a / b)
      else if a = 0 then NaN else if 0 < a then PInf else NInf)"
| "np_div (Fin a) PInf = Fin 0"
| "np_div (Fin a) NInf = Fin 0"
| "np_div (Fin a) NaN = NaN"
| "np_div PInf (Fin b) = (if 0 \<le> b then PInf else NInf)"
| "np_div PInf PInf = NaN"
| "np_div PInf NInf = NaN"
| "np_div PInf NaN = NaN"
| "np_div NInf (Fin b) = (if 0 \<le> b then NInf else PInf)"
| "np_div NInf PInf = NaN"
| "np_div NInf NInf = NaN"
| "np_div NInf NaN = NaN"
| "np_div NaN b = NaN"

fun np_exp :: "npfloat \<Rightarrow> npfloat" where
  "np_exp (Fin a) = Fin (exp a)"
| "np_exp PInf = PInf"
| "np_exp NInf = Fin 0"
| "np_exp NaN = NaN"

fun np_log :: "npfloat \<Rightarrow> npfloat" where
  "np_log (Fin a) = (if 0 < a then Fin (ln a) else if a = 0 then NInf else NaN)"
| "np_log PInf = PInf"
| "np_log NInf = NaN"
| "np_log NaN = NaN"

fun np_abs :: "npfloat \<Rightarrow> npfloat" where
  "np_abs (Fin a) = Fin \<bar>a\<bar>"
| "np_abs PInf = PInf"
| "np_abs NInf = PInf"
| "np_abs NaN = NaN"

text \<open>Comparisons: every comparison with \<^verbatim>\<open>nan\<close> is false.\<close>

fun np_le :: "npfloat \<Rightarrow> npfloat \<Rightarrow> bool" where
  "np_le (Fin a) (Fin b) = (a \<le> b)"
| "np_le (Fin a) PInf = True"
| "np_le (Fin a) NInf = False"
| "np_le (Fin a) NaN = False"
| "np_le PInf (Fin b) = False"
| "np_le PInf PInf = True"
| "np_le PInf NInf = False"
| "np_le PInf NaN = False"
| "np_le NInf (Fin b) = True"
| "np_le NInf PInf = True"
| "np_le NInf NInf = True"
| "np_le NInf NaN = False"
| "np_le NaN b = False"

fun np_lt :: "npfloat \<Rightarrow> npfloat \<Rightarrow> bool" where
  "np_lt (Fin a) (Fin b) = (a < b)"
| "np_lt (Fin a) PInf = True"
| "np_lt (Fin a) NInf = False"
| "np_lt (Fin a) NaN = False"
| "np_lt PInf b = False"
| "np_lt NInf (Fin b) = True"
| "np_lt NInf PInf = True"
| "np_lt NInf NInf = False"
| "np_lt NInf NaN = False"
| "np_lt NaN b = False"

definition np_ge :: "npfloat \<Rightarrow> npfloat \<Rightarrow> bool" where
  "np_ge a b = np_le b a"

text \<open>\<^verbatim>\<open>numpy.power(x, n)\<close> for an integer exponent \<open>n \<ge> 0\<close>; \<^verbatim>\<open>power(x, 0)\<close> is 1 for every x.\<close>

fun np_power :: "npfloat \<Rightarrow> nat \<Rightarrow> npfloat" where
  "np_power x 0 = Fin 1"
| "np_power (Fin a) (Suc n) = Fin (a ^ Suc n)"
| "np_power PInf (Suc n) = PInf"
| "np_power NInf (Suc n) = (if even (Suc n) then PInf else NInf)"
| "np_power NaN (Suc n) = NaN"

text \<open>\<^verbatim>\<open>numpy.sum\<close> and \<^verbatim>\<open>numpy.mean\<close> of a vector; the mean of no values is 0/0.\<close>

primrec np_sum :: "npfloat list \<Rightarrow> npfloat" where
  "np_sum [] = Fin 0"
| "np_sum (x # xs) = np_add x (np_sum xs)"

definition np_mean :: "npfloat list \<Rightarrow> npfloat" where
  "np_mean xs = np_div (np_sum xs) (Fin (real (length xs)))"

text \<open>The predicates the claims speak of.\<close>

fun np_pos :: "npfloat \<Rightarrow> bool" where
  "np_pos (Fin a) = (0 < a)"
| "np_pos PInf = True"
| "np_pos NInf = False"
| "np_pos NaN = False"


subsection \<open>The object\<close>

text \<open>
  \<^verbatim>\<open>scipy.special.psi\<close>, \<^verbatim>\<open>scipy.special.polygamma(1, .)\<close> and
  \<^verbatim>\<open>scipy.special.gammaln\<close> are library functions, applied element by element. They are
  inputs of the model: every function below takes them in a record.
\<close>

record special =
  psi :: "npfloat \<Rightarrow> npfloat"
  polygamma1 :: "npfloat \<Rightarrow> npfloat"
  gammaln :: "npfloat \<Rightarrow> npfloat"

datatype error = IndexError | KeyError | AssertionError | ZeroDivisionError | UnboundLocalError

type_synonym vector = "npfloat list"
type_synonym matrix = "npfloat list list"

text \<open>A FreqDist: term id and count, in the order \<^verbatim>\<open>keys()\<close> and \<^verbatim>\<open>values()\<close> give.\<close>

type_synonym freqdist = "(nat \<times> nat) list"

text \<open>
  The fields \<^verbatim>\<open>__init__\<close> sets (the iteration parameters) and the fields
  \<^verbatim>\<open>_initialize\<close> sets (the model), all of \<^verbatim>\<open>self\<close>; \<^verbatim>\<open>self._x\<close> is \<open>self_x\<close>.
\<close>

record VariationalBayes =
  self_alpha_update_decay_factor :: npfloat
  self_alpha_maximum_decay :: int
  self_alpha_converge_threshold :: npfloat
  self_alpha_maximum_iteration :: int
  self_gamma_converge_threshold :: npfloat
  self_gamma_maximum_iteration :: int
  self_maximum_iteration :: int
  self_converge_threshold :: npfloat
  self_K :: nat
  self_alpha :: vector
  self_data :: "(nat \<times> freqdist) list"
  self_D :: nat
  self_vocab :: "nat list"
  self_V :: nat
  self_gamma :: matrix
  self_beta :: matrix
  self_phi_table :: matrix

text \<open>
  \<^verbatim>\<open>__init__\<close>, its parameters in the order of the source (\<^verbatim>\<open>snapshot_interval\<close> is
  stored nowhere). The attributes \<^verbatim>\<open>_initialize\<close> sets later do not exist yet; the record
  holds them empty.
\<close>

definition VariationalBayes_init ::
  "npfloat \<Rightarrow> int \<Rightarrow> npfloat \<Rightarrow> int \<Rightarrow> npfloat \<Rightarrow> int \<Rightarrow> npfloat \<Rightarrow> int \<Rightarrow> VariationalBayes" where
  "VariationalBayes_init alpha_update_decay_factor alpha_maximum_decay
     gamma_converge_threshold gamma_maximum_iteration
     alpha_converge_threshold alpha_maximum_iteration
     converge_threshold maximum_iteration =
   \<lparr>self_alpha_update_decay_factor = alpha_update_decay_factor,
    self_alpha_maximum_decay = alpha_maximum_decay,
    self_alpha_converge_threshold = alpha_converge_threshold,
    self_alpha_maximum_iteration = alpha_maximum_iteration,
    self_gamma_converge_threshold = gamma_converge_threshold,
    self_gamma_maximum_iteration = gamma_maximum_iteration,
    self_maximum_iteration = maximum_iteration,
    self_converge_threshold = converge_threshold,
    self_K = 0, self_alpha = [], self_data = [], self_D = 0, self_vocab = [], self_V = 0,
    self_gamma = [], self_beta = [], self_phi_table = []\<rparr>"

text \<open>\<^verbatim>\<open>VariationalBayes()\<close>: the default parameters.\<close>

definition VariationalBayes_default :: VariationalBayes where
  "VariationalBayes_default =
     VariationalBayes_init (Fin (9 / 10)) 10 (Fin (1 / 1000000)) 100
       (Fin (1 / 1000000)) 100 (Fin (1 / 100000)) 100"

subsection \<open>update_alpha\<close>

text \<open>Lines 167 to 169: the gradient and the diagonal of the Hessian.\<close>

definition alpha_gradient :: "special \<Rightarrow> nat \<Rightarrow> vector \<Rightarrow> vector \<Rightarrow> vector" where
  "alpha_gradient sp D alpha ss =
     (let alpha_sum = np_sum alpha in
      map2 np_add
        (map (\<lambda>a. np_mul (Fin (real D)) (np_sub (psi sp alpha_sum) (psi sp a))) alpha) ss)"

definition alpha_hessian :: "special \<Rightarrow> nat \<Rightarrow> vector \<Rightarrow> vector" where
  "alpha_hessian sp D alpha = map (\<lambda>a. np_mul (Fin (- real D)) (polygamma1 sp a)) alpha"

text \<open>
  Lines 174 to 178. \<^verbatim>\<open>sum_g_h\<close> is a number; \<^verbatim>\<open>sum_1_h = 1.0 / alpha_hessian\<close> is
  a vector (the source takes no sum there), so \<^verbatim>\<open>c\<close> is a vector.
\<close>

definition newton_c :: "special \<Rightarrow> nat \<Rightarrow> vector \<Rightarrow> vector \<Rightarrow> vector \<Rightarrow> vector" where
  "newton_c sp D alpha g h =
     (let alpha_sum = np_sum alpha;
          sum_g_h = np_sum (map2 np_div g h);
          sum_1_h = map (\<lambda>x. np_div (Fin 1) x) h;
          z = np_mul (Fin (real D)) (polygamma1 sp alpha_sum)
      in map (\<lambda>s. np_div sum_g_h (np_add (np_div (Fin 1) z) s)) sum_1_h)"

text \<open>
  The same quantity as the specification words it (section 4.3, step 4): one number,
  with the sum of \<open>1 / h\<^sub>k\<close> in the denominator.
\<close>

definition newton_c_spec :: "special \<Rightarrow> nat \<Rightarrow> vector \<Rightarrow> vector \<Rightarrow> vector \<Rightarrow> npfloat" where
  "newton_c_spec sp D alpha g h =
     (let alpha_sum = np_sum alpha;
          z = np_mul (Fin (real D)) (polygamma1 sp alpha_sum)
      in np_div (np_sum (map2 np_div g h))
           (np_add (np_div (Fin 1) z) (np_sum (map (\<lambda>x. np_div (Fin 1) x) h))))"

text \<open>Line 184.\<close>

definition step_size :: "npfloat \<Rightarrow> nat \<Rightarrow> vector \<Rightarrow> vector \<Rightarrow> vector \<Rightarrow> vector" where
  "step_size decay_factor decay g c h =
     map2 np_div (map (\<lambda>x. np_mul (np_power decay_factor decay) x) (map2 np_sub g c)) h"

text \<open>Line 187: \<^verbatim>\<open>numpy.any(self._alpha >= step_size)\<close>.\<close>

definition singular_hessian :: "vector \<Rightarrow> vector \<Rightarrow> bool" where
  "singular_hessian alpha step = list_ex (\<lambda>(a, s). np_ge a s) (zip alpha step)"

text \<open>
  Lines 181 to 197, the \<^verbatim>\<open>while True\<close> loop. It returns \<^verbatim>\<open>alpha_update\<close> and
  \<^verbatim>\<open>decay\<close>; \<^verbatim>\<open>decay\<close> starts at 0 and only grows, so it is a natural number.
\<close>

function alpha_decay_loop ::
  "npfloat \<Rightarrow> int \<Rightarrow> vector \<Rightarrow> vector \<Rightarrow> vector \<Rightarrow> vector \<Rightarrow> vector \<Rightarrow> nat \<Rightarrow> vector \<times> nat" where
  "alpha_decay_loop decay_factor maximum_decay alpha g c h alpha_update decay =
     (if singular_hessian alpha (step_size decay_factor decay g c h)
      then (if maximum_decay < int (decay + 1) then (alpha_update, decay + 1)
            else alpha_decay_loop decay_factor maximum_decay alpha g c h alpha_update (decay + 1))
      else (map2 np_sub alpha (step_size decay_factor decay g c h), decay))"
  by pat_completeness auto
termination
  by (relation "measure (\<lambda>(f, m, a, g, c, h, u, d). nat (m - int d))") simp_all

declare alpha_decay_loop.simps [simp del]

text \<open>
  Lines 166 to 205, the \<^verbatim>\<open>for alpha_iteration in xrange(...)\<close> loop, on the iterations
  left. Its variables are \<^verbatim>\<open>self._alpha\<close>, \<^verbatim>\<open>alpha_update\<close> and \<^verbatim>\<open>decay\<close>; it returns
  \<^verbatim>\<open>self._alpha\<close>.
\<close>

fun alpha_newton_loop ::
  "special \<Rightarrow> VariationalBayes \<Rightarrow> vector \<Rightarrow> nat \<Rightarrow> vector \<Rightarrow> vector \<Rightarrow> nat \<Rightarrow> vector" where
  "alpha_newton_loop sp self ss 0 alpha alpha_update decay = alpha"
| "alpha_newton_loop sp self ss (Suc n) alpha alpha_update decay =
     (let g = alpha_gradient sp (self_D self) alpha ss;
          h = alpha_hessian sp (self_D self) alpha;
          c = newton_c sp (self_D self) alpha g h;
          r = alpha_decay_loop (self_alpha_update_decay_factor self)
                (self_alpha_maximum_decay self) alpha g c h alpha_update decay;
          mean_change = np_mean (map np_abs (map2 np_sub (fst r) alpha))
      in if np_le mean_change (self_alpha_converge_threshold self) then fst r
         else alpha_newton_loop sp self ss n (fst r) (fst r) (snd r))"

text \<open>
  \<^verbatim>\<open>update_alpha\<close>. The assertion of line 162 is the first branch; the assertion of
  line 185 compares two shapes that broadcasting has made equal.
\<close>

definition update_alpha :: "special \<Rightarrow> VariationalBayes \<Rightarrow> vector \<Rightarrow> error + VariationalBayes" where
  "update_alpha sp self alpha_sufficient_statistics =
     (if length alpha_sufficient_statistics \<noteq> self_K self then Inl AssertionError
      else Inr (self\<lparr>self_alpha :=
              alpha_newton_loop sp self alpha_sufficient_statistics
                (nat (self_alpha_maximum_iteration self))
                (self_alpha self) (self_alpha self) 0\<rparr>))"

subsection \<open>update_phi\<close>

text \<open>
  \<^verbatim>\<open>numpy.sum(m, axis=0)\<close> of an array with \<open>K\<close> columns: one sum for each column, zeros
  when the array has no row.
\<close>

definition col_sums :: "nat \<Rightarrow> matrix \<Rightarrow> vector" where
  "col_sums K m = foldr (map2 np_add) m (replicate K (Fin 0))"

text \<open>
  Lines 133 to 136, for the rows \<^verbatim>\<open>self._beta[term_ids, :]\<close> and the row
  \<^verbatim>\<open>self._gamma[[doc_id], :]\<close>: each row of \<^verbatim>\<open>phi_contribution\<close> less the logarithm of
  the sum of its exponentials.
\<close>

definition phi_normalized :: "special \<Rightarrow> matrix \<Rightarrow> vector \<Rightarrow> matrix" where
  "phi_normalized sp beta_rows gamma_row =
     map (\<lambda>row.
            let u = map2 np_add row (map (psi sp) gamma_row);
                phi_normalizer = np_log (np_sum (map np_exp u))
            in map (\<lambda>x. np_sub x phi_normalizer) u)
         beta_rows"

text \<open>Line 140: the logarithm of the term's count, added to every entry of the term's row.\<close>

definition phi_weighted :: "matrix \<Rightarrow> nat list \<Rightarrow> matrix" where
  "phi_weighted phi term_counts =
     map2 (\<lambda>row c. map (\<lambda>x. np_add x (np_log (Fin (real c)))) row) phi term_counts"

text \<open>
  Lines 128 to 146, the \<^verbatim>\<open>for gamma_iteration in xrange(...)\<close> loop, on the iterations
  left and the index \<open>i\<close> of the current one. \<^verbatim>\<open>term_ids\<close>, \<^verbatim>\<open>term_counts\<close> and the rows of
  \<^verbatim>\<open>self._beta\<close> are the same in every iteration and are computed by the caller. The loop
  returns \<^verbatim>\<open>self._gamma\<close> and, when an iteration has run, the last
  \<^verbatim>\<open>phi_contribution\<close> and \<^verbatim>\<open>gamma_iteration\<close>. The assertion is the one of line 139; the
  assertions of lines 131 and 135 compare shapes that are equal by construction.
\<close>

fun update_phi_loop ::
  "special \<Rightarrow> VariationalBayes \<Rightarrow> nat \<Rightarrow> matrix \<Rightarrow> nat list \<Rightarrow> nat \<Rightarrow> nat \<Rightarrow> matrix \<Rightarrow>
   (matrix \<times> nat) option \<Rightarrow> error + (matrix \<times> (matrix \<times> nat) option)" where
  "update_phi_loop sp self doc_id beta_rows term_counts 0 i gamma phi = Inr (gamma, phi)"
| "update_phi_loop sp self doc_id beta_rows term_counts (Suc n) i gamma phi =
     (let phi_contribution = phi_normalized sp beta_rows (gamma ! doc_id)
      in if \<not> list_all (\<lambda>r. length r = self_K self) phi_contribution then Inl AssertionError
         else
           let phi_contribution = phi_weighted phi_contribution term_counts;
               gamma_update =
                 map2 np_add (self_alpha self)
                   (col_sums (self_K self) (map (map np_exp) phi_contribution));
               mean_change = np_mean (map np_abs (map2 np_sub gamma_update (gamma ! doc_id)));
               gamma' = gamma[doc_id := gamma_update]
           in if np_le mean_change (self_gamma_converge_threshold self)
              then Inr (gamma', Some (phi_contribution, i))
              else update_phi_loop sp self doc_id beta_rows term_counts n (Suc i) gamma'
                     (Some (phi_contribution, i)))"

text \<open>
  Line 148: the entries \<^verbatim>\<open>exp(phi) * (beta - phi)\<close>, each column weighted by the counts and
  summed (the \<^verbatim>\<open>numpy.dot\<close>), then the sum over the columns.
\<close>

definition likelihood_phi_of :: "nat \<Rightarrow> matrix \<Rightarrow> matrix \<Rightarrow> nat list \<Rightarrow> npfloat" where
  "likelihood_phi_of K phi_contribution beta_rows term_counts =
     (let x = map2 (map2 (\<lambda>e b. np_mul (np_exp e) (np_sub b e))) phi_contribution beta_rows
      in np_sum (map (\<lambda>k. np_sum (map2 (\<lambda>row c. np_mul (row ! k) (Fin (real c))) x term_counts))
                   [0..<K]))"

text \<open>
  Line 151, \<^verbatim>\<open>self._phi_table[[term_ids], :] += rows\<close>: numpy reads the old rows, adds and
  writes back, so a row named twice would keep the last sum only.
\<close>

definition add_rows :: "matrix \<Rightarrow> nat list \<Rightarrow> matrix \<Rightarrow> matrix" where
  "add_rows table term_ids rows =
     foldl (\<lambda>t (i, r). t[i := map2 np_add (table ! i) r]) table (zip term_ids rows)"

text \<open>
  \<^verbatim>\<open>update_phi\<close>. With no iteration to run, line 148 reads \<^verbatim>\<open>phi_contribution\<close> unbound.
  \<^verbatim>\<open>self._data[doc_id]\<close> of a key that is absent is modelled as a KeyError; \<^verbatim>\<open>inference\<close>
  passes keys of \<^verbatim>\<open>self._data\<close> only. An index out of range in line 133 or 151 is an
  IndexError. So is, in line 133, the index of a document with no term: \<^verbatim>\<open>numpy.array\<close>
  of no keys is an array of floats, and numpy takes arrays of integers or booleans only
  as indices.
\<close>

definition update_phi :: "special \<Rightarrow> VariationalBayes \<Rightarrow> nat \<Rightarrow> error + (npfloat \<times> VariationalBayes)" where
  "update_phi sp self doc_id =
     (if nat (self_gamma_maximum_iteration self) = 0 then Inl UnboundLocalError
      else case map_of (self_data self) doc_id of
        None \<Rightarrow> Inl KeyError
      | Some fd \<Rightarrow>
          let term_ids = map fst fd; term_counts = map snd fd
          in if term_ids = [] then Inl IndexError
             else if \<not> list_all (\<lambda>i. i < length (self_beta self)) term_ids then Inl IndexError
             else if \<not> doc_id < length (self_gamma self) then Inl IndexError
             else
               let beta_rows = map (\<lambda>i. self_beta self ! i) term_ids
               in case update_phi_loop sp self doc_id beta_rows term_counts
                         (nat (self_gamma_maximum_iteration self)) 0 (self_gamma self) None of
                    Inl e \<Rightarrow> Inl e
                  | Inr (gamma, None) \<Rightarrow> Inl UnboundLocalError
                  | Inr (gamma, Some (phi_contribution, gamma_iteration)) \<Rightarrow>
                      if \<not> list_all (\<lambda>i. i < length (self_phi_table self)) term_ids
                      then Inl IndexError
                      else Inr (likelihood_phi_of (self_K self) phi_contribution beta_rows
                                  term_counts,
                                self\<lparr>self_gamma := gamma,
                                     self_phi_table :=
                                       add_rows (self_phi_table self) term_ids
                                         (map (map np_exp) phi_contribution)\<rparr>))"

subsection \<open>inference\<close>

text \<open>
  Lines 114 to 116, the M-step: every column of the table divided by its sum, the
  assertion on the shape, then the logarithm.
\<close>

definition m_step :: "nat \<Rightarrow> nat \<Rightarrow> matrix \<Rightarrow> error + matrix" where
  "m_step V K phi_table =
     (let beta = map (\<lambda>row. map2 np_div row (col_sums K phi_table)) phi_table
      in if length beta = V \<and> list_all (\<lambda>r. length r = K) beta
         then Inr (map (map np_log) beta)
         else Inl AssertionError)"

text \<open>Line 103: the row of \<^verbatim>\<open>self._gamma\<close> a document starts from.\<close>

definition initial_gamma :: "VariationalBayes \<Rightarrow> freqdist \<Rightarrow> vector" where
  "initial_gamma self fd =
     (let total_word_count = sum_list (map snd fd)
      in map (\<lambda>a. np_add a (Fin (real total_word_count / real (self_K self)))) (self_alpha self))"

text \<open>
  Lines 97 to 106, the loop over the documents, in the order of \<^verbatim>\<open>self._data.keys()\<close>. The
  division of line 103 is Python's: by \<open>K = 0\<close> it raises.
\<close>

fun inference_docs ::
  "special \<Rightarrow> (nat \<times> freqdist) list \<Rightarrow> VariationalBayes \<Rightarrow> npfloat \<Rightarrow>
   error + (npfloat \<times> VariationalBayes)" where
  "inference_docs sp [] self likelihood_phi = Inr (likelihood_phi, self)"
| "inference_docs sp ((doc, fd) # docs) self likelihood_phi =
     (if self_K self = 0 then Inl ZeroDivisionError
      else if \<not> doc < length (self_gamma self) then Inl IndexError
      else case update_phi sp
                  (self\<lparr>self_gamma := (self_gamma self)[doc := initial_gamma self fd]\<rparr>) doc of
        Inl e \<Rightarrow> Inl e
      | Inr (l, self') \<Rightarrow> inference_docs sp docs self' (np_add likelihood_phi l))"

text \<open>Lines 108 and 109.\<close>

definition alpha_sufficient_statistics :: "special \<Rightarrow> nat \<Rightarrow> matrix \<Rightarrow> vector" where
  "alpha_sufficient_statistics sp K gamma =
     col_sums K (map (\<lambda>row. map (\<lambda>x. np_sub (psi sp x) (psi sp (np_sum row))) row) gamma)"

text \<open>
  The M-step on the object: \<^verbatim>\<open>self._beta\<close> replaced by the transform of
  \<^verbatim>\<open>self._phi_table\<close>.
\<close>

definition m_step_self :: "VariationalBayes \<Rightarrow> error + VariationalBayes" where
  "m_step_self self =
     (case m_step (self_V self) (self_K self) (self_phi_table self) of
        Inl e \<Rightarrow> Inl e
      | Inr beta \<Rightarrow> Inr (self\<lparr>self_beta := beta\<rparr>))"

text \<open>\<^verbatim>\<open>inference\<close>: it returns the likelihood and leaves the object updated.\<close>

definition inference :: "special \<Rightarrow> VariationalBayes \<Rightarrow> error + (npfloat \<times> VariationalBayes)" where
  "inference sp self =
     (let alpha_sum = np_sum (self_alpha self);
          likelihood_alpha =
            np_mul (np_add (np_sub (Fin 0) (np_sum (map (gammaln sp) (self_alpha self))))
                      (gammaln sp alpha_sum))
              (Fin (real (self_D self)));
          self0 = self\<lparr>self_phi_table :=
                    replicate (self_V self) (replicate (self_K self) (Fin 0))\<rparr>
      in case inference_docs sp (self_data self) self0 (Fin 0) of
        Inl e \<Rightarrow> Inl e
      | Inr (likelihood_phi, self1) \<Rightarrow>
          let ss = alpha_sufficient_statistics sp (self_K self1) (self_gamma self1);
              likelihood_gamma =
                np_sub (np_add (Fin 0) (np_sum (concat (map (map (gammaln sp)) (self_gamma self1)))))
                  (np_sum (map (\<lambda>row. gammaln sp (np_sum row)) (self_gamma self1)))
          in case m_step_self self1 of
               Inl e \<Rightarrow> Inl e
             | Inr self2 \<Rightarrow>
                 let likelihood = np_add (np_add likelihood_alpha likelihood_gamma) likelihood_phi
                 in case update_alpha sp self2 ss of
                      Inl e \<Rightarrow> Inl e
                    | Inr self3 \<Rightarrow> Inr (likelihood, self3))"

subsection \<open>learning\<close>

text \<open>
  Lines 215 to 222, on the iterations left. \<^verbatim>\<open>learning\<close> returns nothing; beside the
  object, the model returns the values \<^verbatim>\<open>abs((new_likelihood - old_likelihood) /
  old_likelihood)\<close> that the test of line 219 computed, in order.
\<close>

fun learning_loop ::
  "special \<Rightarrow> nat \<Rightarrow> npfloat \<Rightarrow> VariationalBayes \<Rightarrow> npfloat list \<Rightarrow>
   error + (VariationalBayes \<times> npfloat list)" where
  "learning_loop sp 0 old_likelihood self changes = Inr (self, changes)"
| "learning_loop sp (Suc n) old_likelihood self changes =
     (case inference sp self of
        Inl e \<Rightarrow> Inl e
      | Inr (new_likelihood, self') \<Rightarrow>
          let change = np_abs (np_div (np_sub new_likelihood old_likelihood) old_likelihood)
          in if np_lt change (self_converge_threshold self')
             then Inr (self', changes @ [change])
             else learning_loop sp n new_likelihood self' (changes @ [change]))"

definition learning :: "special \<Rightarrow> VariationalBayes \<Rightarrow> int \<Rightarrow> error + (VariationalBayes \<times> npfloat list)" where
  "learning sp self iteration =
     (let iteration = (if iteration \<le> 0 then self_maximum_iteration self else iteration)
      in learning_loop sp (nat iteration) (Fin 0) self [])"

subsection \<open>_initialize\<close>

text \<open>
  \<^verbatim>\<open>_initialize\<close>, on the data already converted by \<^verbatim>\<open>dict_list_2_dict_freqdist\<close> (a
  function of another module). The values \<^verbatim>\<open>numpy.random.random\<close> returns, each in the
  half-open interval from 0 to 1, are the parameters \<open>random_alpha\<close> (\<open>K\<close> values) and
  \<open>random_beta\<close> (\<open>V\<close> rows of \<open>K\<close> values). Line 56 divides an array; lines 76 and 79
  divide Python numbers, and raise when the divisor is 0.
\<close>

definition initialize ::
  "VariationalBayes \<Rightarrow> (nat \<times> freqdist) list \<Rightarrow> nat \<Rightarrow> real list \<Rightarrow> real list list \<Rightarrow>
   error + VariationalBayes" where
  "initialize self data num_topics random_alpha random_beta =
     (let K = num_topics;
          alpha = map (\<lambda>r. np_div (Fin r) (Fin (real K))) random_alpha;
          D = length data;
          vocab = remdups (concat (map (\<lambda>(doc, fd). map fst fd) data));
          V = length vocab
      in if K = 0 then Inl ZeroDivisionError
         else if V = 0 then Inl ZeroDivisionError
         else Inr (self\<lparr>self_K := K, self_alpha := alpha, self_data := data, self_D := D,
                     self_vocab := vocab, self_V := V,
                     self_gamma := replicate D (map (\<lambda>a. np_add a (Fin (real V / real K))) alpha),
                     self_beta := map (map (\<lambda>r. np_log (Fin (1 / real V + r)))) random_beta\<rparr>))"

subsection \<open>Values for the examples\<close>


text \<open>
  Functions in the place of scipy's for the examples. At the points the examples use
  they obey the recurrences of the digamma and trigamma functions,
  \<open>\<psi>(x + 1) = \<psi>(x) + 1 / x\<close> and \<open>\<psi>\<^sub>1(x) = \<psi>\<^sub>1(x + 1) + 1 / x\<^sup>2\<close> at \<open>x = 1\<close>, and
  \<open>0 < \<psi>\<^sub>1(2) < 1\<close>.
\<close>

definition special_example :: special where
  "special_example =
     \<lparr>psi = (\<lambda>x. x), polygamma1 = (\<lambda>x. np_sub (Fin (5 / 2)) x), gammaln = (\<lambda>x. x)\<rparr>"

text \<open>An object with two topics, one document and \<open>\<alpha> = (1, 1)\<close>.\<close>

definition two_topics :: VariationalBayes where
  "two_topics =
     VariationalBayes_default\<lparr>self_K := 2, self_D := 1, self_alpha := [Fin 1, Fin 1]\<rparr>"

text \<open>An object with two topics, two terms and a table of positive entries.\<close>

definition table_example :: VariationalBayes where
  "table_example =
     VariationalBayes_default\<lparr>self_K := 2, self_V := 2,
       self_phi_table := [[Fin 1, Fin 3], [Fin 1, Fin 1]]\<rparr>"

text \<open>
  The object \<^verbatim>\<open>_initialize\<close> builds from one document that holds one term once, with one
  topic, the draw \<open>1/2\<close> for \<open>\<alpha>\<close> and the draw \<open>0\<close> for \<open>\<beta>\<close>.
\<close>

definition one_topic :: VariationalBayes where
  "one_topic =
     VariationalBayes_default\<lparr>self_K := 1, self_alpha := [Fin (1 / 2)],
       self_data := [(0, [(0, 1)])], self_D := 1, self_vocab := [0], self_V := 1,
       self_gamma := [[Fin (3 / 2)]], self_beta := [[Fin 0]]\<rparr>"


text \<open>The same with a second document that holds no term, in the middle of \<^verbatim>\<open>inference\<close>.\<close>

definition empty_doc_example :: VariationalBayes where
  "empty_doc_example =
     one_topic\<lparr>self_data := [(0, [(0, 1)]), (1, [])], self_D := 2,
       self_gamma := [[Fin (3 / 2)], [Fin (1 / 2)]], self_phi_table := [[Fin 0]]\<rparr>"

section \<open>Properties\<close>

subsection \<open>Arithmetic of numpy floats\<close>

lemma np_power_Fin: "np_power (Fin a) n = Fin (a ^ n)"
  by (cases n) simp_all

lemma not_ge_sub_not_pos: "\<not> np_ge a s \<Longrightarrow> \<not> np_pos (np_sub a s)"
  by (cases a; cases s) (simp_all add: np_ge_def np_sub_def)

lemma accepted_not_pos:
  "\<not> singular_hessian alpha step \<Longrightarrow> x \<in> set (map2 np_sub alpha step) \<Longrightarrow> \<not> np_pos x"
  by (auto simp: singular_hessian_def list_ex_iff dest: not_ge_sub_not_pos)

lemma length_alpha_gradient:
  "length (alpha_gradient sp D alpha ss) = min (length alpha) (length ss)"
  by (simp add: alpha_gradient_def Let_def)

lemma length_alpha_hessian: "length (alpha_hessian sp D alpha) = length alpha"
  by (simp add: alpha_hessian_def)

lemma length_newton_c: "length (newton_c sp D alpha g h) = length h"
  by (simp add: newton_c_def Let_def)

lemma length_step_size:
  "length (step_size f d g c h) = min (min (length g) (length c)) (length h)"
  by (simp add: step_size_def)

lemma decay_loop_cases:
  "fst (alpha_decay_loop f m alpha g c h u d) = u \<or>
   (\<exists>d'. fst (alpha_decay_loop f m alpha g c h u d) = map2 np_sub alpha (step_size f d' g c h)
      \<and> \<not> singular_hessian alpha (step_size f d' g c h))"
proof (induction f m alpha g c h u d rule: alpha_decay_loop.induct)
  case (1 f m alpha g c h u d)
  show ?case
  proof (cases "singular_hessian alpha (step_size f d g c h)")
    case True
    show ?thesis
    proof (cases "m < int (d + 1)")
      case True
      with \<open>singular_hessian alpha (step_size f d g c h)\<close> show ?thesis
        by (subst alpha_decay_loop.simps) simp
    next
      case False
      with True 1 show ?thesis
        by (subst (1 2) alpha_decay_loop.simps) simp
    qed
  next
    case False
    then show ?thesis
      by (subst (1 2) alpha_decay_loop.simps) auto
  qed
qed

lemma decay_loop_not_pos:
  assumes "\<forall>x\<in>set u. \<not> np_pos x"
  shows "\<forall>x\<in>set (fst (alpha_decay_loop f m alpha g c h u d)). \<not> np_pos x"
  using decay_loop_cases [of f m alpha g c h u d] assms
  by (auto dest: accepted_not_pos)

lemma newton_loop_not_pos:
  "\<forall>x\<in>set alpha. \<not> np_pos x \<Longrightarrow> \<forall>x\<in>set u. \<not> np_pos x \<Longrightarrow>
   \<forall>x\<in>set (alpha_newton_loop sp self ss n alpha u d). \<not> np_pos x"
proof (induction n arbitrary: alpha u d)
  case 0
  then show ?case by simp
next
  case (Suc n)
  let ?g = "alpha_gradient sp (self_D self) alpha ss"
  let ?h = "alpha_hessian sp (self_D self) alpha"
  let ?c = "newton_c sp (self_D self) alpha ?g ?h"
  let ?r = "alpha_decay_loop (self_alpha_update_decay_factor self)
              (self_alpha_maximum_decay self) alpha ?g ?c ?h u d"
  have r: "\<forall>x\<in>set (fst ?r). \<not> np_pos x"
    using Suc.prems(2) by (rule decay_loop_not_pos)
  from Suc.IH [OF r r] r show ?case
    by (simp add: Let_def)
qed

lemma length_decay_loop:
  assumes "length alpha = k" "length g = k" "length c = k" "length h = k" "length u = k"
  shows "length (fst (alpha_decay_loop f m alpha g c h u d)) = k"
  using decay_loop_cases [of f m alpha g c h u d] assms
  by (auto simp: length_step_size)

lemma length_newton_loop:
  "length alpha = k \<Longrightarrow> length ss = k \<Longrightarrow> length u = k \<Longrightarrow>
   length (alpha_newton_loop sp self ss n alpha u d) = k"
proof (induction n arbitrary: alpha u d)
  case 0
  then show ?case by simp
next
  case (Suc n)
  let ?g = "alpha_gradient sp (self_D self) alpha ss"
  let ?h = "alpha_hessian sp (self_D self) alpha"
  let ?c = "newton_c sp (self_D self) alpha ?g ?h"
  let ?r = "alpha_decay_loop (self_alpha_update_decay_factor self)
              (self_alpha_maximum_decay self) alpha ?g ?c ?h u d"
  have r: "length (fst ?r) = k"
    using Suc.prems
    by (intro length_decay_loop)
       (simp_all add: length_alpha_gradient length_alpha_hessian length_newton_c)
  from Suc.IH [OF r Suc.prems(2) r] r show ?case
    by (simp add: Let_def)
qed

subsection \<open>update_alpha on the symmetric two-topic input\<close>

lemma gradient_two:
  assumes "psi sp (Fin 1) = Fin p" "psi sp (Fin 2) = Fin (p + 1)"
  shows "alpha_gradient sp 1 [Fin 1, Fin 1] [Fin s, Fin s] = [Fin (1 + s), Fin (1 + s)]"
  using assms by (simp add: alpha_gradient_def np_sub_def)

lemma hessian_two:
  assumes "polygamma1 sp (Fin 1) = Fin (t + 1)"
  shows "alpha_hessian sp 1 [Fin 1, Fin 1] = [Fin (- (t + 1)), Fin (- (t + 1))]"
  using assms by (simp add: alpha_hessian_def)

lemma neg_den: fixes t :: real shows "x / (- t - 1) = - (x / (t + 1))"
proof -
  have m: "- t - 1 = - (t + 1)" by simp
  show ?thesis by (metis m minus_divide_right)
qed

lemma inv_sum_two: fixes t :: real assumes "0 < t"
  shows "1 / t + 1 / (- t - 1) = 1 / (t * (t + 1))"
proof -
  have t0: "t \<noteq> 0" and t1: "t + 1 \<noteq> 0" using assms by simp_all
  have "1 / t + 1 / (- t - 1) = 1 / t - 1 / (t + 1)" by (simp only: neg_den)
  also have "\<dots> = (1 * (t + 1) - 1 * t) / (t * (t + 1))" using t0 t1 by (rule diff_frac_eq)
  also have "\<dots> = 1 / (t * (t + 1))" by simp
  finally show ?thesis .
qed

lemma c_value_two: fixes t :: real assumes "0 < t"
  shows "(gv / (- t - 1) + gv / (- t - 1)) / (1 / t + 1 / (- t - 1)) = - 2 * gv * t"
proof -
  have t0: "t \<noteq> 0" and t1: "t + 1 \<noteq> 0" using assms by simp_all
  have a: "gv / (- t - 1) + gv / (- t - 1) = - (2 * (gv / (t + 1)))" by (simp only: neg_den)
  have "(gv / (- t - 1) + gv / (- t - 1)) / (1 / t + 1 / (- t - 1))
        = - (2 * (gv / (t + 1))) * (t * (t + 1))"
    by (simp only: a inv_sum_two [OF assms] divide_divide_eq_right mult_1 div_by_1 times_divide_eq_right)
  also have "\<dots> = - 2 * gv * t" using t1 by simp
  finally show ?thesis .
qed

lemma newton_c_two:
  assumes "polygamma1 sp (Fin 2) = Fin t" "0 < t"
  shows "newton_c sp 1 [Fin 1, Fin 1] [Fin gv, Fin gv] [Fin (- (t + 1)), Fin (- (t + 1))]
         = [Fin (- 2 * gv * t), Fin (- 2 * gv * t)]"
proof -
  have nz: "1 / t + 1 / (- t - 1) \<noteq> 0"
    unfolding inv_sum_two [OF assms(2)] using assms(2) by simp
  show ?thesis
    using assms nz c_value_two [OF assms(2), of gv] by (simp add: newton_c_def Let_def)
qed

lemma step_two:
  assumes "0 < t"
  shows "step_size (Fin f) d [Fin gv, Fin gv] [Fin (- 2 * gv * t), Fin (- 2 * gv * t)]
           [Fin (- (t + 1)), Fin (- (t + 1))]
         = [Fin (- (f ^ d * gv * (1 + 2 * t) / (1 + t))), Fin (- (f ^ d * gv * (1 + 2 * t) / (1 + t)))]"
proof -
  have "f ^ d * (gv + 2 * gv * t) / (- t - 1) = - (f ^ d * gv * (1 + 2 * t) / (1 + t))"
    using assms by (simp add: field_simps)
  then show ?thesis
    using assms by (simp add: step_size_def np_power_Fin np_sub_def)
qed

lemma np_mul_one: "np_mul (Fin 1) x = x"
  by (cases x) simp_all

lemma step_zero_two:
  assumes "0 < t"
  shows "step_size f 0 [Fin gv, Fin gv] [Fin (- 2 * gv * t), Fin (- 2 * gv * t)]
           [Fin (- (t + 1)), Fin (- (t + 1))]
         = [Fin (- (gv * (1 + 2 * t) / (1 + t))), Fin (- (gv * (1 + 2 * t) / (1 + t)))]"
proof -
  have "(gv + 2 * gv * t) / (- t - 1) = - (gv * (1 + 2 * t) / (1 + t))"
    by (simp only: neg_den) (simp add: algebra_simps)
  then show ?thesis
    using assms by (simp add: step_size_def np_mul_one np_sub_def)
qed

lemma decay_loop_all_singular:
  "(\<And>d'. singular_hessian alpha (step_size f d' g c h)) \<Longrightarrow> int d \<le> m \<Longrightarrow>
   alpha_decay_loop f m alpha g c h u d = (u, nat (m + 1))"
proof (induction f m alpha g c h u d rule: alpha_decay_loop.induct)
  case (1 f m alpha g c h u d)
  show ?case
  proof (cases "m < int (d + 1)")
    case True
    with 1 show ?thesis
      by (subst alpha_decay_loop.simps) auto
  next
    case False
    with 1 show ?thesis
      by (subst alpha_decay_loop.simps) auto
  qed
qed

text \<open>
  Claim C1 (every component of \<open>\<alpha>\<close> strictly positive before \<^verbatim>\<open>update_alpha\<close> is strictly
  positive after it, for every sufficient-statistics vector) fails on the code. The test
  of line 187 holds a step back when \<open>\<alpha>\<^sub>k \<ge> step\<^sub>k\<close> for some \<open>k\<close>, so a step is taken only
  when \<open>\<alpha>\<^sub>k < step\<^sub>k\<close> for every \<open>k\<close>, and \<open>\<alpha> - step\<close> then has no positive component. With
  two topics, one document, \<open>\<alpha> = (1, 1)\<close> and the statistics \<open>(-2, -2)\<close>, for every pair of
  special functions that obey the recurrences of the digamma and trigamma functions at 1
  with \<open>\<psi>\<^sub>1(2) > 0\<close>, and whatever the decay factor, the decay cap and the threshold:
  \<^verbatim>\<open>update_alpha\<close> returns, and no component of the new \<open>\<alpha>\<close> is positive.
\<close>

theorem update_alpha_loses_positivity:
  assumes sp: "psi sp (Fin 1) = Fin p" "psi sp (Fin 2) = Fin (p + 1)"
              "polygamma1 sp (Fin 2) = Fin t" "polygamma1 sp (Fin 1) = Fin (t + 1)" "0 < t"
    and self: "self_K self = 2" "self_D self = 1" "self_alpha self = [Fin 1, Fin 1]"
              "0 < self_alpha_maximum_iteration self"
  shows "list_all np_pos (self_alpha self) \<and>
         (\<exists>self'. update_alpha sp self [Fin (- 2), Fin (- 2)] = Inr self' \<and>
            length (self_alpha self') = 2 \<and>
            list_all (\<lambda>x. \<not> np_pos x) (self_alpha self'))"
proof -
  let ?a = "[Fin 1, Fin 1]"
  let ?ss = "[Fin (- 2), Fin (- 2)]"
  let ?g = "[Fin (- 1), Fin (- 1)]"
  let ?h = "[Fin (- (t + 1)), Fin (- (t + 1))]"
  let ?c = "[Fin (2 * t), Fin (2 * t)]"
  let ?s = "(1 + 2 * t) / (1 + t)"
  let ?f = "self_alpha_update_decay_factor self"
  let ?m = "self_alpha_maximum_decay self"
  have g: "alpha_gradient sp 1 ?a ?ss = ?g"
    using gradient_two [OF sp(1,2), of "- 2"] by simp
  have h: "alpha_hessian sp 1 ?a = ?h"
    by (rule hessian_two [OF sp(4)])
  have c: "newton_c sp 1 ?a ?g ?h = ?c"
    using newton_c_two [OF sp(3,5), of "- 1"] by simp
  have "- (- 1 - 2 * t) = 1 + 2 * t" by simp
  then have neg: "- ((- 1 - 2 * t) / (1 + t)) = ?s"
    by (metis minus_divide_left)
  have st: "step_size ?f 0 ?g ?c ?h = [Fin ?s, Fin ?s]"
    using step_zero_two [OF sp(5), of ?f "- 1"] neg by simp
  have s1: "1 < ?s" using sp(5) by (simp add: field_simps)
  then have ns: "\<not> singular_hessian ?a [Fin ?s, Fin ?s]"
    by (simp add: singular_hessian_def np_ge_def)
  have r: "alpha_decay_loop ?f ?m ?a ?g ?c ?h ?a 0 = ([Fin (1 - ?s), Fin (1 - ?s)], 0)"
    by (subst alpha_decay_loop.simps) (simp only: st ns if_False, simp add: np_sub_def)
  let ?a1 = "[Fin (1 - ?s), Fin (1 - ?s)]"
  have np1: "\<forall>x\<in>set ?a1. \<not> np_pos x" using s1 by simp
  obtain n where n: "nat (self_alpha_maximum_iteration self) = Suc n"
    using self(4) by (cases "nat (self_alpha_maximum_iteration self)") auto
  let ?res = "alpha_newton_loop sp self ?ss (Suc n) ?a ?a 0"
  have res: "?res = ?a1 \<or> ?res = alpha_newton_loop sp self ?ss n ?a1 ?a1 0"
    by (simp only: alpha_newton_loop.simps self g h c r Let_def fst_conv snd_conv) simp
  have "length ?res = 2 \<and> (\<forall>x\<in>set ?res. \<not> np_pos x)"
  proof (rule disjE [OF res])
    assume "?res = ?a1"
    then show ?thesis using np1 by simp
  next
    assume e: "?res = alpha_newton_loop sp self ?ss n ?a1 ?a1 0"
    have "length (alpha_newton_loop sp self ?ss n ?a1 ?a1 0) = 2"
      by (rule length_newton_loop) simp_all
    moreover have "\<forall>x\<in>set (alpha_newton_loop sp self ?ss n ?a1 ?a1 0). \<not> np_pos x"
      using np1 np1 by (rule newton_loop_not_pos)
    ultimately show ?thesis unfolding e by simp
  qed
  then show ?thesis
    using self n by (simp add: update_alpha_def list_all_iff)
qed

lemma half_step_le_one: fixes t :: real assumes "0 < t"
  shows "(9 / 10) ^ d * ((1 + 2 * t) / (2 * (1 + t))) \<le> 1"
proof -
  have a: "(9 / 10 :: real) ^ d \<le> 1" by (rule power_le_one) simp_all
  have b: "(1 + 2 * t) / (2 * (1 + t)) \<le> 1" using assms by (simp add: field_simps)
  have c: "0 \<le> (1 + 2 * t) / (2 * (1 + t))" using assms by simp
  show ?thesis using a c b by (rule mult_le_one)
qed

text \<open>
  Claim C2 (the decay branch is taken exactly when \<open>step\<^sub>k \<ge> \<alpha>\<^sub>k\<close> for some \<open>k\<close>, and the
  candidate \<open>\<alpha> - step\<close> is accepted otherwise) fails on the code, whose test is
  \<open>\<alpha>\<^sub>k \<ge> step\<^sub>k\<close>. With two topics, one document, \<open>\<alpha> = (1, 1)\<close>, the statistics
  \<open>(-3/2, -3/2)\<close> and the default parameters, the first candidate \<open>\<alpha> - step\<close> is positive in
  every component, and yet the code takes the decay branch, eleven times, until the cap is
  passed, and \<^verbatim>\<open>update_alpha\<close> leaves \<open>\<alpha>\<close> as it was.
\<close>

theorem positive_candidate_is_refused:
  assumes sp: "psi sp (Fin 1) = Fin p" "psi sp (Fin 2) = Fin (p + 1)"
              "polygamma1 sp (Fin 2) = Fin t" "polygamma1 sp (Fin 1) = Fin (t + 1)" "0 < t"
    and self: "self_K self = 2" "self_D self = 1" "self_alpha self = [Fin 1, Fin 1]"
              "self_alpha_update_decay_factor self = Fin (9 / 10)"
              "self_alpha_maximum_decay self = 10"
              "0 < self_alpha_maximum_iteration self"
              "np_le (Fin 0) (self_alpha_converge_threshold self)"
  shows "let alpha = self_alpha self;
             ss = [Fin (- 3 / 2), Fin (- 3 / 2)];
             g = alpha_gradient sp (self_D self) alpha ss;
             h = alpha_hessian sp (self_D self) alpha;
             c = newton_c sp (self_D self) alpha g h;
             step = step_size (self_alpha_update_decay_factor self) 0 g c h
         in list_all np_pos (map2 np_sub alpha step) \<and>
            singular_hessian alpha step \<and>
            alpha_decay_loop (self_alpha_update_decay_factor self)
              (self_alpha_maximum_decay self) alpha g c h alpha 0 = (alpha, 11) \<and>
            update_alpha sp self ss = Inr self"
proof -
  let ?a = "[Fin 1, Fin 1]"
  let ?ss = "[Fin (- 3 / 2), Fin (- 3 / 2)]"
  let ?g = "[Fin (- 1 / 2), Fin (- 1 / 2)]"
  let ?h = "[Fin (- (t + 1)), Fin (- (t + 1))]"
  let ?c = "[Fin t, Fin t]"
  let ?s = "\<lambda>d. (9 / 10) ^ d * ((1 + 2 * t) / (2 * (1 + t)))"
  have g: "alpha_gradient sp 1 ?a ?ss = ?g"
    using gradient_two [OF sp(1,2), of "- 3 / 2"] by simp
  have h: "alpha_hessian sp 1 ?a = ?h"
    by (rule hessian_two [OF sp(4)])
  have c: "newton_c sp 1 ?a ?g ?h = ?c"
    using newton_c_two [OF sp(3,5), of "- 1 / 2"] by simp
  have st: "step_size (Fin (9 / 10)) d ?g ?c ?h = [Fin (?s d), Fin (?s d)]" for d
    using step_two [OF sp(5), of "9 / 10" d "- 1 / 2"] by simp
  have le: "?s d \<le> 1" for d by (rule half_step_le_one [OF sp(5)])
  have lt: "?s 0 < 1" using sp(5) by (simp add: field_simps)
  have sing: "singular_hessian ?a (step_size (Fin (9 / 10)) d ?g ?c ?h)" for d
    unfolding st using le [of d] by (simp add: singular_hessian_def np_ge_def)
  have loop: "alpha_decay_loop (Fin (9 / 10)) 10 ?a ?g ?c ?h ?a 0 = (?a, 11)"
    using decay_loop_all_singular [of ?a "Fin (9 / 10)" ?g ?c ?h 0 10 ?a, OF sing] by simp
  have pos: "list_all np_pos (map2 np_sub ?a (step_size (Fin (9 / 10)) 0 ?g ?c ?h))"
    unfolding st using lt by (simp add: np_sub_def)
  obtain n where n: "nat (self_alpha_maximum_iteration self) = Suc n"
    using self(6) by (cases "nat (self_alpha_maximum_iteration self)") auto
  have mc: "np_mean (map np_abs (map2 np_sub ?a ?a)) = Fin 0"
    by (simp add: np_mean_def np_sub_def)
  have res: "alpha_newton_loop sp self ?ss (Suc n) ?a ?a 0 = ?a"
    using self(7)
    by (simp only: alpha_newton_loop.simps self g h c loop Let_def fst_conv snd_conv mc if_True)
  have upd: "update_alpha sp self ?ss = Inr self"
    using self n res by (simp add: update_alpha_def)
  show ?thesis
    using pos sing [of 0] loop upd
    by (simp only: Let_def self g h c)
qed

lemma spec_c_value: fixes t :: real assumes "0 < t" "t < 1"
  shows "1 / t + (1 / (- t - 1) + 1 / (- t - 1)) \<noteq> 0"
    and "(- 1 / (- t - 1) + - 1 / (- t - 1)) / (1 / t + (1 / (- t - 1) + 1 / (- t - 1)))
         = 2 * t / (1 - t)"
proof -
  have t0: "t \<noteq> 0" and t1: "t + 1 \<noteq> 0" and t2: "1 - t \<noteq> 0" using assms by simp_all
  have d: "1 / t + (1 / (- t - 1) + 1 / (- t - 1)) = (1 - t) / (t * (t + 1))"
  proof -
    have "1 / t + (1 / (- t - 1) + 1 / (- t - 1)) = 1 / t - 2 / (t + 1)"
      by (simp only: neg_den)
    also have "\<dots> = (1 * (t + 1) - 2 * t) / (t * (t + 1))" using t0 t1 by (rule diff_frac_eq)
    also have "\<dots> = (1 - t) / (t * (t + 1))" by simp
    finally show ?thesis .
  qed
  show "1 / t + (1 / (- t - 1) + 1 / (- t - 1)) \<noteq> 0"
    unfolding d using assms by simp
  have n: "- 1 / (- t - 1) + - 1 / (- t - 1) = 2 / (t + 1)"
    by (simp only: neg_den)
  have "(- 1 / (- t - 1) + - 1 / (- t - 1)) / (1 / t + (1 / (- t - 1) + 1 / (- t - 1)))
        = (2 / (t + 1)) / ((1 - t) / (t * (t + 1)))"
    by (simp only: n d)
  also have "\<dots> = (2 / (t + 1)) * (t * (t + 1)) / (1 - t)"
    by (simp only: divide_divide_eq_right)
  also have "(2 / (t + 1)) * (t * (t + 1)) = 2 * t" using t1 by simp
  finally show "(- 1 / (- t - 1) + - 1 / (- t - 1)) / (1 / t + (1 / (- t - 1) + 1 / (- t - 1)))
         = 2 * t / (1 - t)" .
qed

text \<open>
  Claim C3 (\<open>c\<close> is the scalar \<open>(\<Sum> g\<^sub>k / h\<^sub>k) / (1 / z + \<Sum> 1 / h\<^sub>k)\<close>) fails on the code:
  line 175 takes no sum, so \<open>c\<^sub>k = (\<Sum> g\<^sub>j / h\<^sub>j) / (1 / z + 1 / h\<^sub>k)\<close>. With two topics, one
  document, \<open>\<alpha> = (1, 1)\<close> and the statistics \<open>(-2, -2)\<close>, where \<open>t\<close> is the value of the
  trigamma function at 2: the code computes \<open>c = (2 t, 2 t)\<close>, the scalar of the
  specification is \<open>2 t / (1 - t)\<close>, and the two differ.
\<close>

theorem newton_c_is_not_the_scalar:
  assumes sp: "psi sp (Fin 1) = Fin p" "psi sp (Fin 2) = Fin (p + 1)"
              "polygamma1 sp (Fin 2) = Fin t" "polygamma1 sp (Fin 1) = Fin (t + 1)"
              "0 < t" "t < 1"
  shows "let alpha = [Fin 1, Fin 1];
             g = alpha_gradient sp 1 alpha [Fin (- 2), Fin (- 2)];
             h = alpha_hessian sp 1 alpha
         in newton_c sp 1 alpha g h = [Fin (2 * t), Fin (2 * t)] \<and>
            newton_c_spec sp 1 alpha g h = Fin (2 * t / (1 - t)) \<and>
            2 * t \<noteq> 2 * t / (1 - t)"
proof -
  let ?a = "[Fin 1, Fin 1]"
  let ?g = "[Fin (- 1), Fin (- 1)]"
  let ?h = "[Fin (- (t + 1)), Fin (- (t + 1))]"
  have g: "alpha_gradient sp 1 ?a [Fin (- 2), Fin (- 2)] = ?g"
    using gradient_two [OF sp(1,2), of "- 2"] by simp
  have h: "alpha_hessian sp 1 ?a = ?h"
    by (rule hessian_two [OF sp(4)])
  have c: "newton_c sp 1 ?a ?g ?h = [Fin (2 * t), Fin (2 * t)]"
    using newton_c_two [OF sp(3,5), of "- 1"] by simp
  have cs: "newton_c_spec sp 1 ?a ?g ?h = Fin (2 * t / (1 - t))"
    using sp(3,5) spec_c_value [OF sp(5,6)]
    by (simp add: newton_c_spec_def Let_def)
  have ne: "2 * t \<noteq> 2 * t / (1 - t)"
    using sp(5,6) by (simp add: field_simps)
  show ?thesis
    using c cs ne by (simp only: Let_def g h, simp?)
qed

text \<open>
  Witness for C1: the example functions and the object \<open>two_topics\<close> satisfy the
  hypotheses, and the conclusion holds there.
\<close>

theorem update_alpha_loses_positivity_witness:
  "list_all np_pos (self_alpha two_topics) \<and>
   (\<exists>self'. update_alpha special_example two_topics [Fin (- 2), Fin (- 2)] = Inr self' \<and>
      length (self_alpha self') = 2 \<and> list_all (\<lambda>x. \<not> np_pos x) (self_alpha self'))"
  using update_alpha_loses_positivity [of special_example 1 "1 / 2" two_topics]
  by (simp add: special_example_def two_topics_def VariationalBayes_default_def
        VariationalBayes_init_def np_sub_def list_all_iff)

text \<open>
  Witness for C2: the same example satisfies the hypotheses.
\<close>

theorem positive_candidate_is_refused_witness:
  "let alpha = self_alpha two_topics;
       ss = [Fin (- 3 / 2), Fin (- 3 / 2)];
       g = alpha_gradient special_example (self_D two_topics) alpha ss;
       h = alpha_hessian special_example (self_D two_topics) alpha;
       c = newton_c special_example (self_D two_topics) alpha g h;
       step = step_size (self_alpha_update_decay_factor two_topics) 0 g c h
   in list_all np_pos (map2 np_sub alpha step) \<and>
      singular_hessian alpha step \<and>
      alpha_decay_loop (self_alpha_update_decay_factor two_topics)
        (self_alpha_maximum_decay two_topics) alpha g c h alpha 0 = (alpha, 11) \<and>
      update_alpha special_example two_topics ss = Inr two_topics"
  using positive_candidate_is_refused [of special_example 1 "1 / 2" two_topics]
  by (simp add: special_example_def two_topics_def VariationalBayes_default_def
        VariationalBayes_init_def np_sub_def)

text \<open>
  Witness for C3: the example functions satisfy the hypotheses, with \<open>t = 1/2\<close>.
\<close>

theorem newton_c_is_not_the_scalar_witness:
  "let alpha = [Fin 1, Fin 1];
       g = alpha_gradient special_example 1 alpha [Fin (- 2), Fin (- 2)];
       h = alpha_hessian special_example 1 alpha
   in newton_c special_example 1 alpha g h = [Fin 1, Fin 1] \<and>
      newton_c_spec special_example 1 alpha g h = Fin 2"
  using newton_c_is_not_the_scalar [of special_example 1 "1 / 2"]
  by (simp add: special_example_def np_sub_def)

subsection \<open>The M-step\<close>

text \<open>
  Claim C10: the M-step is idempotent. When the M-step has replaced \<^verbatim>\<open>self._beta\<close> by the
  transform of \<^verbatim>\<open>self._phi_table\<close>, a second M-step on the table, which the first has not
  changed, succeeds as well and leaves the object, and so \<open>\<beta>\<close>, as the first left it.
\<close>

theorem m_step_idempotent:
  assumes "m_step_self self = Inr self'"
  shows "m_step_self self' = Inr self'"
  using assms by (auto simp: m_step_self_def split: sum.splits)








subsection \<open>_initialize\<close>

text \<open>
  Claim C8 (every component of \<open>\<alpha>\<close> is strictly positive after \<^verbatim>\<open>_initialize\<close>, for every
  outcome of the random draw) fails on the code: \<^verbatim>\<open>numpy.random.random\<close> draws from the
  half-open interval that starts at 0, and line 56 divides the draw by \<open>K\<close>, where the
  comment of line 55 announces the value \<open>1/K\<close>. With two topics and the draw \<open>(0, 1/2)\<close>
  the first component of \<open>\<alpha>\<close> is 0.
\<close>

theorem initialize_alpha_zero_draw:
  "case initialize VariationalBayes_default [(0, [(0, 1)])] 2 [0, 1 / 2] [[1 / 2, 1 / 2]] of
     Inl e \<Rightarrow> False
   | Inr self \<Rightarrow> self_alpha self = [Fin 0, Fin (1 / 4)] \<and> \<not> list_all np_pos (self_alpha self)"
  by (simp add: initialize_def)

subsection \<open>The loop over the documents\<close>

text \<open>
  Claim C7: in every outer iteration, \<^verbatim>\<open>inference\<close> resets the row of \<open>\<gamma>\<close> of every document
  to \<open>\<alpha> + N\<^sub>d / K\<close>, where \<open>N\<^sub>d\<close> is the number of tokens of the document, and the values the
  row held before are discarded. For the document the loop of lines 97 to 106 takes
  next: the E-step runs on the object whose row is reset; that row is \<open>\<alpha> + N\<^sub>d / K\<close>; and
  whatever the row held before, the loop returns the same.
\<close>

theorem gamma_reset_for_every_document:
  assumes "doc < length (self_gamma self)" "0 < self_K self"
  shows "inference_docs sp ((doc, fd) # docs) self l =
           (case update_phi sp
                   (self\<lparr>self_gamma := (self_gamma self)[doc := initial_gamma self fd]\<rparr>) doc of
              Inl e \<Rightarrow> Inl e
            | Inr (l', self') \<Rightarrow> inference_docs sp docs self' (np_add l l')) \<and>
         self_gamma (self\<lparr>self_gamma := (self_gamma self)[doc := initial_gamma self fd]\<rparr>) ! doc =
           map (\<lambda>a. np_add a (Fin (real (sum_list (map snd fd)) / real (self_K self))))
             (self_alpha self) \<and>
         inference_docs sp ((doc, fd) # docs)
           (self\<lparr>self_gamma := (self_gamma self)[doc := previous]\<rparr>) l =
         inference_docs sp ((doc, fd) # docs) self l"
  using assms by (simp add: initial_gamma_def)

subsection \<open>A document without terms\<close>

lemma np_add_zero: "np_add a (Fin 0) = a"
  by (cases a) simp_all

lemma initial_gamma_Nil: "initial_gamma self [] = self_alpha self"
  by (simp add: initial_gamma_def np_add_zero)

text \<open>
  Claim C9 (for a document with no term the E-step does not fail, leaves the row of \<open>\<gamma>\<close>
  at \<open>\<alpha>\<close>, converges in its first iteration and adds nothing to the table and to the
  likelihood) fails on the code. The row that \<^verbatim>\<open>inference\<close> sets for the document is
  \<open>\<alpha>\<close>, but the first iteration of \<^verbatim>\<open>update_phi\<close> stops in line 133: the keys of the
  document make an empty array of floats, and \<^verbatim>\<open>self._beta[term_ids, :]\<close> raises an
  IndexError.
\<close>

theorem update_phi_empty_document_raises:
  assumes "map_of (self_data self) doc = Some []"
    and "0 < self_gamma_maximum_iteration self"
  shows "initial_gamma self [] = self_alpha self \<and> update_phi sp self doc = Inl IndexError"
  using assms by (simp add: update_phi_def initial_gamma_Nil)

subsection \<open>The normalization of \<^verbatim>\<open>update_phi\<close>\<close>









subsection \<open>The first test of \<^verbatim>\<open>learning\<close>\<close>

lemma one_topic_initialized:
  "initialize VariationalBayes_default [(0, [(0, 1)])] 1 [1 / 2] [[0]] = Inr one_topic"
  by (simp add: initialize_def one_topic_def)

lemma first_change_not_finite:
  "np_abs (np_div (np_sub x (Fin 0)) (Fin 0)) = PInf \<or>
   np_abs (np_div (np_sub x (Fin 0)) (Fin 0)) = NaN"
  by (cases x) (simp_all add: np_sub_def)

lemma not_lt_first_change: "\<not> np_lt (np_abs (np_div (np_sub x (Fin 0)) (Fin 0))) t"
  using first_change_not_finite [of x] by auto

lemma update_alpha_returns:
  "length ss = self_K self \<Longrightarrow> \<exists>self'. update_alpha sp self ss = Inr self'"
  by (simp add: update_alpha_def)

lemma one_topic_fields:
  "self_K one_topic = 1" "self_alpha one_topic = [Fin (1 / 2)]"
  "self_data one_topic = [(0, [(0, 1)])]" "self_D one_topic = 1" "self_V one_topic = 1"
  "self_beta one_topic = [[Fin 0]]" "self_gamma one_topic = [[Fin (3 / 2)]]"
  "self_gamma_maximum_iteration one_topic = 100"
  "self_gamma_converge_threshold one_topic = Fin (1 / 1000000)"
  "self_maximum_iteration one_topic = 100"
  by (simp_all add: one_topic_def VariationalBayes_default_def VariationalBayes_init_def)

lemma one_topic_loop:
  "update_phi_loop special_example (one_topic\<lparr>self_phi_table := t, self_gamma := g\<rparr>) 0
     [[Fin 0]] [1] (Suc n) 0 [[Fin (3 / 2)]] None =
   Inr ([[Fin (3 / 2)]], Some ([[Fin 0]], 0))"
  by (simp add: one_topic_fields phi_normalized_def phi_weighted_def col_sums_def
        np_mean_def np_sub_def special_example_def)

lemma one_topic_phi:
  "update_phi special_example
     (one_topic\<lparr>self_phi_table := [[Fin 0]], self_gamma := [[Fin (3 / 2)]]\<rparr>) 0 =
   Inr (Fin 0, one_topic\<lparr>self_phi_table := [[Fin 1]], self_gamma := [[Fin (3 / 2)]]\<rparr>)"
proof -
  have l: "update_phi_loop special_example
     (one_topic\<lparr>self_phi_table := [[Fin 0]], self_gamma := [[Fin (3 / 2)]]\<rparr>) 0
     [[Fin 0]] [Suc 0] 100 0 [[Fin (3 / 2)]] None =
   Inr ([[Fin (3 / 2)]], Some ([[Fin 0]], 0))"
    using one_topic_loop [where t = "[[Fin 0]]" and g = "[[Fin (3 / 2)]]" and n = 99] by simp
  show ?thesis
    by (simp add: update_phi_def one_topic_fields l likelihood_phi_of_def add_rows_def
          np_sub_def)
qed

lemma one_topic_docs:
  "inference_docs special_example (self_data one_topic)
     (one_topic\<lparr>self_phi_table := [[Fin 0]]\<rparr>) (Fin 0) =
   Inr (Fin 0, one_topic\<lparr>self_phi_table := [[Fin 1]], self_gamma := [[Fin (3 / 2)]]\<rparr>)"
  using one_topic_phi by (simp add: one_topic_fields initial_gamma_def)

lemma one_topic_inference:
  "\<exists>self'. inference special_example one_topic = Inr (Fin 0, self')"
proof -
  let ?s = "one_topic\<lparr>self_phi_table := [[Fin 1]], self_gamma := [[Fin (3 / 2)]]\<rparr>"
  have d: "inference_docs special_example (self_data one_topic)
     (one_topic\<lparr>self_phi_table := replicate (self_V one_topic)
        (replicate (self_K one_topic) (Fin 0))\<rparr>) (Fin 0) = Inr (Fin 0, ?s)"
    using one_topic_docs by (simp add: one_topic_fields)
  have m: "m_step_self ?s = Inr (?s\<lparr>self_beta := [[Fin 0]]\<rparr>)"
    by (simp add: m_step_self_def m_step_def col_sums_def one_topic_fields)
  have ss: "length (alpha_sufficient_statistics special_example (self_K ?s) (self_gamma ?s))
            = self_K (?s\<lparr>self_beta := [[Fin 0]]\<rparr>)"
    by (simp add: alpha_sufficient_statistics_def col_sums_def one_topic_fields)
  obtain s3 where u: "update_alpha special_example (?s\<lparr>self_beta := [[Fin 0]]\<rparr>)
      (alpha_sufficient_statistics special_example (self_K ?s) (self_gamma ?s)) = Inr s3"
    using update_alpha_returns [OF ss] by blast
  have "inference special_example one_topic = Inr (Fin 0, s3)"
    unfolding inference_def Let_def d
    using m u by (simp add: one_topic_fields special_example_def np_sub_def)
  then show ?thesis by blast
qed

text \<open>
  Claim C4 (in the first outer iteration the test of the relative change is skipped or
  special-cased, so that nothing is divided by a previous likelihood of zero) fails on the
  code: \<^verbatim>\<open>learning\<close> has no such case, and the first test divides by
  \<^verbatim>\<open>old_likelihood = 0.0\<close>. On the object \<open>one_topic\<close> the first likelihood is 0 (with one
  topic its three terms cancel, whatever the special functions are), and one iteration
  of \<^verbatim>\<open>learning\<close> computes the change \<open>0/0\<close>, which is \<^verbatim>\<open>nan\<close>.
\<close>

theorem first_check_divides_by_zero_example:
  "map_sum id snd (learning special_example one_topic 1) = Inr [NaN]"
proof -
  obtain s where i: "inference special_example one_topic = Inr (Fin 0, s)"
    using one_topic_inference by blast
  show ?thesis using i by (simp add: learning_def np_sub_def)
qed

text \<open>
  Claim C4 as amended: in the first outer iteration the test is not skipped. The code
  computes \<open>|(new - 0) / 0|\<close>, which numpy evaluates to \<^verbatim>\<open>inf\<close> or \<^verbatim>\<open>nan\<close>; the comparison
  with the threshold is false, so \<^verbatim>\<open>learning\<close> never stops after its first iteration and
  goes on with the iterations that are left, as if the first test were skipped.
\<close>

theorem first_check_divides_by_zero:
  assumes "inference sp self = Inr (new_likelihood, self')"
    and "0 < (if iteration \<le> 0 then self_maximum_iteration self else iteration)"
  shows "learning sp self iteration =
           learning_loop sp
             (nat (if iteration \<le> 0 then self_maximum_iteration self else iteration) - 1)
             new_likelihood self'
             [np_abs (np_div (np_sub new_likelihood (Fin 0)) (Fin 0))] \<and>
         (np_abs (np_div (np_sub new_likelihood (Fin 0)) (Fin 0)) = PInf \<or>
          np_abs (np_div (np_sub new_likelihood (Fin 0)) (Fin 0)) = NaN) \<and>
         \<not> np_lt (np_abs (np_div (np_sub new_likelihood (Fin 0)) (Fin 0)))
             (self_converge_threshold self')"
proof -
  obtain n where n: "nat (if iteration \<le> 0 then self_maximum_iteration self else iteration)
                     = Suc n"
    using assms(2)
    by (cases "nat (if iteration \<le> 0 then self_maximum_iteration self else iteration)") auto
  have "learning sp self iteration =
          learning_loop sp n new_likelihood self'
            [np_abs (np_div (np_sub new_likelihood (Fin 0)) (Fin 0))]"
    unfolding learning_def Let_def n
    using assms(1) not_lt_first_change [of new_likelihood "self_converge_threshold self'"]
    by simp
  then show ?thesis
    using n first_change_not_finite [of new_likelihood]
      not_lt_first_change [of new_likelihood "self_converge_threshold self'"]
    by simp
qed

subsection \<open>The normalization after \<open>\<alpha>\<close> is lost\<close>









subsection \<open>The examples\<close>

text \<open>
  Witness for C10: the M-step succeeds on the table of \<open>table_example\<close>, and a second one
  leaves its result unchanged.
\<close>

theorem m_step_idempotent_witness:
  "m_step_self table_example =
     Inr (table_example\<lparr>self_beta := [[Fin (ln (1 / 2)), Fin (ln (3 / 4))],
                                       [Fin (ln (1 / 2)), Fin (ln (1 / 4))]]\<rparr>) \<and>
   m_step_self (table_example\<lparr>self_beta := [[Fin (ln (1 / 2)), Fin (ln (3 / 4))],
                                            [Fin (ln (1 / 2)), Fin (ln (1 / 4))]]\<rparr>) =
     Inr (table_example\<lparr>self_beta := [[Fin (ln (1 / 2)), Fin (ln (3 / 4))],
                                       [Fin (ln (1 / 2)), Fin (ln (1 / 4))]]\<rparr>)"
proof -
  have a: "m_step_self table_example =
     Inr (table_example\<lparr>self_beta := [[Fin (ln (1 / 2)), Fin (ln (3 / 4))],
                                       [Fin (ln (1 / 2)), Fin (ln (1 / 4))]]\<rparr>)"
    by (simp add: m_step_self_def m_step_def col_sums_def table_example_def
          VariationalBayes_default_def VariationalBayes_init_def eval_nat_numeral)
  show ?thesis using a m_step_idempotent [OF a] by simp
qed



text \<open>
  Witness for C7: the object \<open>one_topic\<close> and a document of two tokens, whose row becomes
  \<open>1/2 + 2\<close>; a row that held 9 before gives the same result.
\<close>

theorem gamma_reset_for_every_document_witness:
  "0 < length (self_gamma one_topic) \<and> 0 < self_K one_topic \<and>
   self_gamma (one_topic\<lparr>self_gamma :=
       (self_gamma one_topic)[0 := initial_gamma one_topic [(0, 2)]]\<rparr>) ! 0 = [Fin (5 / 2)] \<and>
   inference_docs special_example [(0, [(0, 2)])]
     (one_topic\<lparr>self_gamma := (self_gamma one_topic)[0 := [Fin 9]]\<rparr>) (Fin 0) =
   inference_docs special_example [(0, [(0, 2)])] one_topic (Fin 0)"
  using gamma_reset_for_every_document
    [of 0 one_topic special_example "[(0, 2)]" "[]" "Fin 0" "[Fin 9]"]
  by (simp add: one_topic_fields)

text \<open>
  Witness for C9: the second document of \<open>empty_doc_example\<close> holds no term.
\<close>

theorem update_phi_empty_document_raises_witness:
  "map_of (self_data empty_doc_example) 1 = Some [] \<and>
   0 < self_gamma_maximum_iteration empty_doc_example \<and>
   self_gamma empty_doc_example ! 1 = self_alpha empty_doc_example \<and>
   update_phi special_example empty_doc_example 1 = Inl IndexError"
  using update_phi_empty_document_raises [of empty_doc_example 1 special_example]
  by (simp add: empty_doc_example_def one_topic_fields initial_gamma_def)


text \<open>
  Witness for the amended C4: on \<open>one_topic\<close>, with the default of 100 iterations, the
  first change is \<^verbatim>\<open>nan\<close> and 99 iterations are left.
\<close>

theorem first_check_divides_by_zero_witness:
  "\<exists>self'. inference special_example one_topic = Inr (Fin 0, self') \<and>
     learning special_example one_topic 0 =
       learning_loop special_example 99 (Fin 0) self' [NaN] \<and>
     \<not> np_lt NaN (self_converge_threshold self')"
proof -
  obtain s where i: "inference special_example one_topic = Inr (Fin 0, s)"
    using one_topic_inference by blast
  have "learning special_example one_topic 0 = learning_loop special_example 99 (Fin 0) s [NaN]"
    using first_check_divides_by_zero [OF i, of 0]
    by (simp add: one_topic_fields np_sub_def)
  then show ?thesis using i by auto
qed

end
